theory Spec2Isabelle
  imports Main
begin

section \<open>Python values, exceptions and the store of LLM client objects\<close>

text \<open>
  The node \<^verbatim>\<open>ReasoningNode\<close> of \<^verbatim>\<open>scrapegraphai/nodes/reasoning_node.py\<close> reads a
  configuration dict, a state dict and calls three collaborators: the schema transform
  \<^verbatim>\<open>transform_schema\<close>, the prompt template of langchain and a chat model. Exceptions are
  values of \<open>py_error\<close>; a function that may raise returns \<open>py_error + 'a\<close> with \<open>Inl\<close>
  the exception.
\<close>

datatype py_error =
    KeyError string
  | TypeError
  | AttributeError
  | IndexError
  | Raised string

text \<open>
  The chat model classes the module imports. \<^verbatim>\<open>isinstance\<close> only asks whether the class of
  the object is \<^verbatim>\<open>ChatOllama\<close> (a subclass of it counts as \<^verbatim>\<open>ChatOllama\<close> here).
\<close>

datatype llm_class =
    ChatOpenAI
  | AzureChatOpenAI
  | ChatMistralAI
  | ChatOllama
  | OtherChatModel string

text \<open>
  A chat model object: its class and its \<^verbatim>\<open>format\<close> attribute (\<open>None\<close> while unset). The
  objects live in a store indexed by object identity, because the client in the
  configuration dict and \<^verbatim>\<open>self.llm_model\<close> are one object: an assignment through one name
  is seen through the other.
\<close>

record llm_client =
  cls :: llm_class
  format :: "string option"

type_synonym addr = nat

type_synonym client_store = "addr \<Rightarrow> llm_client"

text \<open>
  Python values as they occur in the configuration and in the state. \<open>VClient a\<close> is a
  reference to the chat model object at \<open>a\<close>; \<open>VModel d\<close> is a schema class whose
  \<^verbatim>\<open>.schema()\<close> method returns the description \<open>d\<close>.
\<close>

datatype pyval =
    VNone
  | VBool bool
  | VInt int
  | VStr string
  | VList "pyval list"
  | VDict "(string \<times> pyval) list"
  | VClient addr
  | VModel pyval

type_synonym pydict = "string \<rightharpoonup> pyval"

text \<open>\<^verbatim>\<open>d[k]\<close> raises \<^verbatim>\<open>KeyError\<close> on a missing key; \<^verbatim>\<open>d.get(k, default)\<close> does not.\<close>

definition getitem :: "pydict \<Rightarrow> string \<Rightarrow> py_error + pyval" where
  "getitem d k = (case d k of None \<Rightarrow> Inl (KeyError k) | Some v \<Rightarrow> Inr v)"

definition dict_get :: "pydict \<Rightarrow> string \<Rightarrow> pyval \<Rightarrow> pyval" where
  "dict_get d k dflt = (case d k of None \<Rightarrow> dflt | Some v \<Rightarrow> v)"

text \<open>\<^verbatim>\<open>isinstance(v, ChatOllama)\<close>, and the assignment \<^verbatim>\<open>v.format = s\<close> on a client object.\<close>

definition isinstance_ChatOllama :: "client_store \<Rightarrow> pyval \<Rightarrow> bool" where
  "isinstance_ChatOllama h v = (case v of VClient a \<Rightarrow> cls (h a) = ChatOllama | _ \<Rightarrow> False)"

definition set_format :: "client_store \<Rightarrow> pyval \<Rightarrow> string \<Rightarrow> client_store" where
  "set_format h v s = (case v of VClient a \<Rightarrow> h(a := (h a)\<lparr>format := Some s\<rparr>) | _ \<Rightarrow> h)"

text \<open>
  \<^verbatim>\<open>obj.schema()\<close>: only a schema class has the method; on \<^verbatim>\<open>None\<close> (no schema configured)
  and on the other values the attribute lookup raises \<^verbatim>\<open>AttributeError\<close>.
\<close>

definition schema :: "pyval \<Rightarrow> py_error + pyval" where
  "schema v = (case v of VModel d \<Rightarrow> Inr d | _ \<Rightarrow> Inl AttributeError)"

section \<open>The node\<close>

text \<open>The attributes of the base class \<^verbatim>\<open>BaseNode\<close> that the node uses.\<close>

record base_node =
  node_name :: string
  node_type :: string
  input :: string
  output_keys :: "string list"
  min_input_len :: nat
  node_config :: "pydict option"

text \<open>
  Modelled from the spec: \<^verbatim>\<open>BaseNode.__init__\<close> is in \<^verbatim>\<open>base_node.py\<close>, which is not among
  the sources. The spec says the node is constructed from an input-key specification, a
  list of output keys (of which the first is used) and a configuration mapping, and that
  the node name appears in the log line; so the base constructor stores its arguments on
  the node and does not fail.
\<close>

definition BaseNode_init ::
  "string \<Rightarrow> string \<Rightarrow> string \<Rightarrow> string list \<Rightarrow> nat \<Rightarrow> pydict option \<Rightarrow> base_node" where
  "BaseNode_init name ntype inp outp n config =
     \<lparr>node_name = name, node_type = ntype, input = inp, output_keys = outp,
      min_input_len = n, node_config = config\<rparr>"

text \<open>
  The attributes \<^verbatim>\<open>ReasoningNode.__init__\<close> adds. \<^verbatim>\<open>simplefied_schema\<close> does not exist
  before the first \<^verbatim>\<open>execute\<close> (\<open>None\<close>). The field \<open>output_keys\<close> is the attribute
  \<^verbatim>\<open>output\<close>.
\<close>

record reasoning_node = base_node +
  llm_model :: pyval
  verbose :: pyval
  force :: pyval
  additional_info :: pyval
  output_schema :: pyval
  simplefied_schema :: "pyval option"

text \<open>
  \<^verbatim>\<open>ReasoningNode.__init__(self, input, output, node_config=None, node_name="PromptRefiner")\<close>,
  lines 31 to 54. \<^verbatim>\<open>node_config["llm_model"]\<close> raises \<^verbatim>\<open>TypeError\<close> when \<^verbatim>\<open>node_config\<close> is
  \<^verbatim>\<open>None\<close> and \<^verbatim>\<open>KeyError\<close> when the key is missing; the other entries are read with
  \<^verbatim>\<open>.get\<close>. Past line 40 \<^verbatim>\<open>node_config\<close> is a dict, so the alternatives
  \<^verbatim>\<open>True if node_config is None\<close> and \<^verbatim>\<open>False if node_config is None\<close> of lines 45 to 50
  are never taken. The result is the node and the store after the constructor.
\<close>

definition default_node_name :: string where
  "default_node_name = ''PromptRefiner''"

definition ReasoningNode_init ::
  "client_store \<Rightarrow> string \<Rightarrow> string list \<Rightarrow> pydict option \<Rightarrow> string
     \<Rightarrow> py_error + (reasoning_node \<times> client_store)" where
  "ReasoningNode_init h inp outp config name =
     (let base = BaseNode_init name ''node'' inp outp 2 config in
      case config of
        None \<Rightarrow> Inl TypeError
      | Some cfg \<Rightarrow>
          (case getitem cfg ''llm_model'' of
             Inl e \<Rightarrow> Inl e
           | Inr m \<Rightarrow>
               let h' = (if isinstance_ChatOllama h m then set_format h m ''json'' else h) in
               Inr (base_node.extend base
                      \<lparr>llm_model = m,
                       verbose = dict_get cfg ''verbose'' (VBool False),
                       force = dict_get cfg ''force'' (VBool False),
                       additional_info = dict_get cfg ''additional_info'' VNone,
                       output_schema = dict_get cfg ''schema'' VNone,
                       simplefied_schema = None\<rparr>,
                    h')))"

section \<open>Prompt templates\<close>

text \<open>
  A template is its text split at the replacement fields: \<open>Lit\<close> is literal text,
  \<open>Var n\<close> the field \<^verbatim>\<open>{n}\<close>. The literal text is given line by line as in the source
  (an escape \<^verbatim>\<open>\n\<close> of the source is a newline of its own).
\<close>

datatype segment = Lit string | Var string

definition TEMPLATE_REASONING_text1 :: string where
  "TEMPLATE_REASONING_text1 =
     ''\<newline>'' @
     ''        **Task**: Analyze the user's request and the provided JSON schema to clearly map the desired data extraction.\<newline>\<newline>'' @
     ''        Break down the user's request into key components, and then explicitly connect these components to the \<newline>'' @
     ''        corresponding elements within the JSON schema.\<newline>'' @
     ''\<newline>'' @
     ''        **User's Request**:\<newline>'' @
     ''        ''"

definition TEMPLATE_REASONING_text2 :: string where
  "TEMPLATE_REASONING_text2 =
     ''\<newline>'' @
     ''\<newline>'' @
     ''        **Desired JSON Output Schema**:\<newline>'' @
     ''        ```json\<newline>'' @
     ''        ''"

definition TEMPLATE_REASONING_text3 :: string where
  "TEMPLATE_REASONING_text3 =
     ''\<newline>'' @
     ''        ```\<newline>'' @
     ''\<newline>'' @
     ''        **Analysis Instructions**:\<newline>'' @
     ''        1. **Break Down User Request:** \<newline>'' @
     ''        * Clearly identify the core entities or data types the user is asking for.\<newline>\<newline>'' @
     ''        * Highlight any specific attributes or relationships mentioned in the request.\<newline>\<newline>'' @
     ''\<newline>'' @
     ''        2. **Map to JSON Schema**:\<newline>'' @
     ''        * For each identified element in the user request, pinpoint its exact counterpart in the JSON schema.\<newline>\<newline>'' @
     ''        * Explain how the schema structure accommodates the user's needs.\<newline>'' @
     ''        * If applicable, mention any schema elements that are not directly addressed in the user's request.\<newline>\<newline>'' @
     ''\<newline>'' @
     ''        This analysis will be used to guide the HTML structure examination and ultimately inform the code generation process.\<newline>\<newline>'' @
     ''        Please generate only the analysis and no other text.\<newline>'' @
     ''\<newline>'' @
     ''        **Response**:\<newline>'' @
     ''        ''"

definition TEMPLATE_REASONING :: "segment list" where
  "TEMPLATE_REASONING =
     [Lit TEMPLATE_REASONING_text1,
      Var ''user_input'',
      Lit TEMPLATE_REASONING_text2,
      Var ''json_schema'',
      Lit TEMPLATE_REASONING_text3]"

definition TEMPLATE_REASONING_WITH_CONTEXT_text1 :: string where
  "TEMPLATE_REASONING_WITH_CONTEXT_text1 =
     ''\<newline>'' @
     ''        **Task**: Analyze the user's request, the provided JSON schema, and the additional context the user provided to clearly map the desired data extraction.\<newline>\<newline>'' @
     ''        Break down the user's request into key components, and then explicitly connect these components to the corresponding elements within the JSON schema.\<newline>\<newline>'' @
     ''\<newline>'' @
     ''        **User's Request**:\<newline>'' @
     ''        ''"

definition TEMPLATE_REASONING_WITH_CONTEXT_text2 :: string where
  "TEMPLATE_REASONING_WITH_CONTEXT_text2 =
     ''\<newline>'' @
     ''\<newline>'' @
     ''        **Desired JSON Output Schema**:\<newline>'' @
     ''        ```json\<newline>'' @
     ''        ''"

definition TEMPLATE_REASONING_WITH_CONTEXT_text3 :: string where
  "TEMPLATE_REASONING_WITH_CONTEXT_text3 =
     ''\<newline>'' @
     ''        ```\<newline>'' @
     ''\<newline>'' @
     ''        **Additional Context**:\<newline>'' @
     ''        ''"

definition TEMPLATE_REASONING_WITH_CONTEXT_text4 :: string where
  "TEMPLATE_REASONING_WITH_CONTEXT_text4 =
     ''\<newline>'' @
     ''\<newline>'' @
     ''        **Analysis Instructions**:\<newline>'' @
     ''        1. **Break Down User Request:** \<newline>'' @
     ''        * Clearly identify the core entities or data types the user is asking for.\<newline>\<newline>'' @
     ''        * Highlight any specific attributes or relationships mentioned in the request.\<newline>\<newline>'' @
     ''\<newline>'' @
     ''        2. **Map to JSON Schema**:\<newline>'' @
     ''        * For each identified element in the user request, pinpoint its exact counterpart in the JSON schema.\<newline>\<newline>'' @
     ''        * Explain how the schema structure accommodates the user's needs.\<newline>\<newline>'' @
     ''        * If applicable, mention any schema elements that are not directly addressed in the user's request.\<newline>\<newline>'' @
     ''\<newline>'' @
     ''        This analysis will be used to guide the HTML structure examination and ultimately inform the code generation process.\<newline>\<newline>'' @
     ''        Please generate only the analysis and no other text.\<newline>'' @
     ''\<newline>'' @
     ''        **Response**:\<newline>'' @
     ''        ''"

definition TEMPLATE_REASONING_WITH_CONTEXT :: "segment list" where
  "TEMPLATE_REASONING_WITH_CONTEXT =
     [Lit TEMPLATE_REASONING_WITH_CONTEXT_text1,
      Var ''user_input'',
      Lit TEMPLATE_REASONING_WITH_CONTEXT_text2,
      Var ''json_schema'',
      Lit TEMPLATE_REASONING_WITH_CONTEXT_text3,
      Var ''additional_context'',
      Lit TEMPLATE_REASONING_WITH_CONTEXT_text4]"

text \<open>
  \<^verbatim>\<open>PromptTemplate(template=..., partial_variables=...)\<close>. Formatting replaces each field by
  the text of its variable and raises \<^verbatim>\<open>KeyError\<close> at the first field without one.
\<close>

record prompt_template =
  template :: "segment list"
  partial_variables :: "(string \<times> pyval) list"

fun format_template ::
  "(pyval \<Rightarrow> string) \<Rightarrow> pydict \<Rightarrow> segment list \<Rightarrow> py_error + string" where
  "format_template str vars [] = Inr []"
| "format_template str vars (Lit s # segs) =
     (case format_template str vars segs of Inl e \<Rightarrow> Inl e | Inr r \<Rightarrow> Inr (s @ r))"
| "format_template str vars (Var n # segs) =
     (case vars n of
        None \<Rightarrow> Inl (KeyError n)
      | Some v \<Rightarrow>
          (case format_template str vars segs of Inl e \<Rightarrow> Inl e | Inr r \<Rightarrow> Inr (str v @ r)))"

section \<open>Collaborators and execution\<close>

text \<open>
  What the node calls and does not define: \<^verbatim>\<open>transform_schema\<close> (of \<^verbatim>\<open>..utils\<close>, not among
  the sources), Python's \<^verbatim>\<open>str\<close> on a value that is not a string, the call \<^verbatim>\<open>v()\<close> of a
  callable value with no argument, the chat model (from the client object and the prompt
  text to its raw response) and \<^verbatim>\<open>StrOutputParser\<close> (from the raw response to text). All
  but \<^verbatim>\<open>str\<close> may raise. They are functions: a stub client that answers a prompt the same
  way each time.
\<close>

record 'r collaborators =
  transform_schema :: "pyval \<Rightarrow> py_error + pyval"
  py_str :: "pyval \<Rightarrow> string"
  py_call :: "pyval \<Rightarrow> py_error + pyval"
  llm_invoke :: "llm_client \<Rightarrow> string \<Rightarrow> py_error + 'r"
  str_output_parser :: "'r \<Rightarrow> py_error + string"

text \<open>\<^verbatim>\<open>str(v)\<close>, and the text a field takes for \<open>v\<close>: a string stands for itself.\<close>

definition str_of :: "'r collaborators \<Rightarrow> pyval \<Rightarrow> string" where
  "str_of env v = (case v of VStr s \<Rightarrow> s | _ \<Rightarrow> py_str env v)"

text \<open>
  Lines 138 to 148: the choice of the template. \<open>simplified\<close> is the value just stored in
  \<^verbatim>\<open>self.simplefied_schema\<close>.
\<close>

definition build_prompt :: "'r collaborators \<Rightarrow> pyval \<Rightarrow> pyval \<Rightarrow> pyval \<Rightarrow> prompt_template" where
  "build_prompt env info user_prompt simplified =
     (if info \<noteq> VNone then
        \<lparr>template = TEMPLATE_REASONING_WITH_CONTEXT,
         partial_variables = [(''user_input'', user_prompt),
                              (''json_schema'', VStr (str_of env simplified)),
                              (''additional_context'', info)]\<rparr>
      else
        \<lparr>template = TEMPLATE_REASONING,
         partial_variables = [(''user_input'', user_prompt),
                              (''json_schema'', VStr (str_of env simplified))]\<rparr>)"

text \<open>
  \<^verbatim>\<open>callable(v)\<close>: of the values here, a chat model object and a schema class can be called.
\<close>

definition callable :: "pyval \<Rightarrow> bool" where
  "callable v = (case v of VClient _ \<Rightarrow> True | VModel _ \<Rightarrow> True | _ \<Rightarrow> False)"

text \<open>
  Before it formats, the prompt template replaces each partial variable that is callable by
  the result of calling it with no argument, in the order of the dict; a call that raises
  ends the formatting.
\<close>

fun merge_partial_variables ::
  "'r collaborators \<Rightarrow> (string \<times> pyval) list \<Rightarrow> py_error + (string \<times> pyval) list" where
  "merge_partial_variables env [] = Inr []"
| "merge_partial_variables env ((k, v) # kvs) =
     (case (if callable v then py_call env v else Inr v) of
        Inl e \<Rightarrow> Inl e
      | Inr v' \<Rightarrow>
          (case merge_partial_variables env kvs of
             Inl e \<Rightarrow> Inl e
           | Inr r \<Rightarrow> Inr ((k, v') # r)))"

text \<open>
  The prompt step of the chain, invoked with \<^verbatim>\<open>{}\<close>: the partial variables are merged, then
  the template is formatted with them.
\<close>

definition render :: "'r collaborators \<Rightarrow> prompt_template \<Rightarrow> py_error + string" where
  "render env p =
     (case merge_partial_variables env (partial_variables p) of
        Inl e \<Rightarrow> Inl e
      | Inr vars \<Rightarrow> format_template (str_of env) (map_of vars) (template p))"

text \<open>
  What an execution does to the outside, in order: the log line, the call of
  \<^verbatim>\<open>transform_schema\<close> with its argument, the construction of the prompt template, and the
  call of the chat model with the client as it is then and the prompt text.
\<close>

datatype event =
    LogInfo string
  | TransformSchema pyval
  | NewPromptTemplate prompt_template
  | LLMInvoke llm_client string

fun transform_calls :: "event list \<Rightarrow> pyval list" where
  "transform_calls [] = []"
| "transform_calls (TransformSchema d # es) = d # transform_calls es"
| "transform_calls (_ # es) = transform_calls es"

fun prompts :: "event list \<Rightarrow> prompt_template list" where
  "prompts [] = []"
| "prompts (NewPromptTemplate p # es) = p # prompts es"
| "prompts (_ # es) = prompts es"

fun llm_calls :: "event list \<Rightarrow> (llm_client \<times> string) list" where
  "llm_calls [] = []"
| "llm_calls (LLMInvoke c t # es) = (c, t) # llm_calls es"
| "llm_calls (_ # es) = llm_calls es"

text \<open>
  The outcome of \<^verbatim>\<open>execute\<close>: what it returns or raises, the state dict and the node after
  the call (both are mutated in place), and the events.
\<close>

record exec_result =
  returned :: "py_error + pydict"
  state_after :: pydict
  node_after :: reasoning_node
  trace :: "event list"

definition raise :: "py_error \<Rightarrow> reasoning_node \<Rightarrow> pydict \<Rightarrow> event list \<Rightarrow> exec_result" where
  "raise e self state tr = \<lparr>returned = Inl e, state_after = state, node_after = self, trace = tr\<rparr>"

text \<open>
  \<^verbatim>\<open>ReasoningNode.execute(self, state)\<close>, lines 56 to 156. A value of \<^verbatim>\<open>llm_model\<close> that is
  not a chat model is refused by the pipe operator with \<^verbatim>\<open>TypeError\<close>, before the chain is
  invoked. \<^verbatim>\<open>self.output[0]\<close> raises \<^verbatim>\<open>IndexError\<close> on an empty list, after the chain has
  run.
\<close>

definition execute ::
  "'r collaborators \<Rightarrow> client_store \<Rightarrow> reasoning_node \<Rightarrow> pydict \<Rightarrow> exec_result" where
  "execute env h self state =
     (let t0 = [LogInfo (''--- Executing '' @ node_name self @ '' Node ---'')] in
      case getitem state ''user_prompt'' of
        Inl e \<Rightarrow> raise e self state t0
      | Inr user_prompt \<Rightarrow>
     (case schema (output_schema self) of
        Inl e \<Rightarrow> raise e self state t0
      | Inr description \<Rightarrow>
     (let t1 = t0 @ [TransformSchema description] in
      case transform_schema env description of
        Inl e \<Rightarrow> raise e self state t1
      | Inr simplified \<Rightarrow>
     (let self1 = self\<lparr>simplefied_schema := Some simplified\<rparr>;
          prompt = build_prompt env (additional_info self1) user_prompt simplified;
          t2 = t1 @ [NewPromptTemplate prompt] in
      case llm_model self1 of
        VClient a \<Rightarrow>
          (case render env prompt of
             Inl e \<Rightarrow> raise e self1 state t2
           | Inr text \<Rightarrow>
          (let t3 = t2 @ [LLMInvoke (h a) text] in
           case llm_invoke env (h a) text of
             Inl e \<Rightarrow> raise e self1 state t3
           | Inr response \<Rightarrow>
          (case str_output_parser env response of
             Inl e \<Rightarrow> raise e self1 state t3
           | Inr refined_prompt \<Rightarrow>
          (case output_keys self1 of
             [] \<Rightarrow> raise IndexError self1 state t3
           | key # _ \<Rightarrow>
               let state' = state(key \<mapsto> VStr refined_prompt) in
               \<lparr>returned = Inr state', state_after = state', node_after = self1,
                trace = t3\<rparr>))))
      | _ \<Rightarrow> raise TypeError self1 state t2))))"

section \<open>A stub configuration\<close>

text \<open>
  Concrete inputs on which the theorems below are instantiated: a store with a
  \<^verbatim>\<open>ChatOllama\<close> client at address 0 and \<^verbatim>\<open>ChatOpenAI\<close> clients elsewhere, a schema class, a
  transform and a chat model that return fixed values, values that raise \<^verbatim>\<open>TypeError\<close> when
  called with no argument, and the state
  \<^verbatim>\<open>{"user_prompt": "extract product names and prices"}\<close>.
\<close>

definition stub_store :: client_store where
  "stub_store = (\<lambda>a. \<lparr>cls = (if a = 0 then ChatOllama else ChatOpenAI), format = None\<rparr>)"

definition stub_description :: pyval where
  "stub_description =
     VDict [(''title'', VStr ''Product''),
            (''properties'', VDict [(''name'', VDict [(''type'', VStr ''string'')]),
                                    (''price'', VDict [(''type'', VStr ''number'')])])]"

definition stub_simplified :: pyval where
  "stub_simplified = VDict [(''name'', VStr ''string''), (''price'', VStr ''number'')]"

definition stub_env :: "string collaborators" where
  "stub_env =
     \<lparr>transform_schema = (\<lambda>d. Inr stub_simplified),
      py_str = (\<lambda>v. ''{name: string, price: number}''),
      py_call = (\<lambda>v. Inl TypeError),
      llm_invoke = (\<lambda>c text. Inr ''analysis''),
      str_output_parser = (\<lambda>response. Inr response)\<rparr>"

definition stub_config :: "pyval \<Rightarrow> pydict" where
  "stub_config client =
     [''llm_model'' \<mapsto> client, ''schema'' \<mapsto> VModel stub_description]"

definition stub_node :: "pydict \<Rightarrow> pyval \<Rightarrow> pyval \<Rightarrow> reasoning_node" where
  "stub_node cfg client info =
     \<lparr>node_name = ''PromptRefiner'', node_type = ''node'', input = ''user_prompt'',
      output_keys = [''reasoning''], min_input_len = 2, node_config = Some cfg,
      llm_model = client, verbose = VBool False, force = VBool False,
      additional_info = info, output_schema = VModel stub_description,
      simplefied_schema = None\<rparr>"

definition stub_state :: pydict where
  "stub_state = [''user_prompt'' \<mapsto> VStr ''extract product names and prices'']"

section \<open>Execution, path by path\<close>

lemma str_of_VStr: "str_of env (VStr s) = s"
  by (simp add: str_of_def)

lemma not_callable:
  "\<not> callable VNone" "\<not> callable (VStr s)" "\<not> callable (VBool b)" "\<not> callable (VInt i)"
  "\<not> callable (VList vs)" "\<not> callable (VDict kvs)"
  by (simp_all add: callable_def)

lemma render_build_prompt:
  "\<not> callable up \<Longrightarrow> \<not> callable info \<Longrightarrow>
   render env (build_prompt env info up t) =
     Inr (if info \<noteq> VNone
          then TEMPLATE_REASONING_WITH_CONTEXT_text1 @ str_of env up @
               TEMPLATE_REASONING_WITH_CONTEXT_text2 @ str_of env t @
               TEMPLATE_REASONING_WITH_CONTEXT_text3 @ str_of env info @
               TEMPLATE_REASONING_WITH_CONTEXT_text4
          else TEMPLATE_REASONING_text1 @ str_of env up @
               TEMPLATE_REASONING_text2 @ str_of env t @ TEMPLATE_REASONING_text3)"
  by (simp add: render_def build_prompt_def TEMPLATE_REASONING_def
      TEMPLATE_REASONING_WITH_CONTEXT_def str_of_VStr not_callable)

lemma render_callable_user_prompt:
  "callable up \<Longrightarrow> py_call env up = Inl e \<Longrightarrow> render env (build_prompt env info up t) = Inl e"
  by (simp add: render_def build_prompt_def)

lemma execute_render_error:
  "state ''user_prompt'' = Some up \<Longrightarrow> schema (output_schema self) = Inr d \<Longrightarrow>
   transform_schema env d = Inr t \<Longrightarrow> llm_model self = VClient a \<Longrightarrow>
   render env (build_prompt env (additional_info self) up t) = Inl e \<Longrightarrow>
   execute env h self state =
     raise e (self\<lparr>simplefied_schema := Some t\<rparr>) state
       [LogInfo (''--- Executing '' @ node_name self @ '' Node ---''), TransformSchema d,
        NewPromptTemplate (build_prompt env (additional_info self) up t)]"
  by (simp add: execute_def getitem_def)

lemma execute_no_user_prompt:
  "state ''user_prompt'' = None \<Longrightarrow>
   execute env h self state =
     raise (KeyError ''user_prompt'') self state
       [LogInfo (''--- Executing '' @ node_name self @ '' Node ---'')]"
  by (simp add: execute_def getitem_def)

lemma execute_no_schema:
  "state ''user_prompt'' = Some up \<Longrightarrow> schema (output_schema self) = Inl e \<Longrightarrow>
   execute env h self state =
     raise e self state [LogInfo (''--- Executing '' @ node_name self @ '' Node ---'')]"
  by (simp add: execute_def getitem_def)

lemma execute_transform_error:
  "state ''user_prompt'' = Some up \<Longrightarrow> schema (output_schema self) = Inr d \<Longrightarrow>
   transform_schema env d = Inl e \<Longrightarrow>
   execute env h self state =
     raise e self state
       [LogInfo (''--- Executing '' @ node_name self @ '' Node ---''), TransformSchema d]"
  by (simp add: execute_def getitem_def)

lemma execute_not_client:
  "state ''user_prompt'' = Some up \<Longrightarrow> schema (output_schema self) = Inr d \<Longrightarrow>
   transform_schema env d = Inr t \<Longrightarrow> \<forall>a. llm_model self \<noteq> VClient a \<Longrightarrow>
   execute env h self state =
     raise TypeError (self\<lparr>simplefied_schema := Some t\<rparr>) state
       [LogInfo (''--- Executing '' @ node_name self @ '' Node ---''), TransformSchema d,
        NewPromptTemplate (build_prompt env (additional_info self) up t)]"
  by (cases "llm_model self") (simp_all add: execute_def getitem_def)

lemma execute_llm_error:
  "state ''user_prompt'' = Some up \<Longrightarrow> schema (output_schema self) = Inr d \<Longrightarrow>
   transform_schema env d = Inr t \<Longrightarrow> llm_model self = VClient a \<Longrightarrow>
   render env (build_prompt env (additional_info self) up t) = Inr text \<Longrightarrow>
   llm_invoke env (h a) text = Inl e \<Longrightarrow>
   execute env h self state =
     raise e (self\<lparr>simplefied_schema := Some t\<rparr>) state
       [LogInfo (''--- Executing '' @ node_name self @ '' Node ---''), TransformSchema d,
        NewPromptTemplate (build_prompt env (additional_info self) up t),
        LLMInvoke (h a) text]"
  by (simp add: execute_def getitem_def)

lemma execute_parser_error:
  "state ''user_prompt'' = Some up \<Longrightarrow> schema (output_schema self) = Inr d \<Longrightarrow>
   transform_schema env d = Inr t \<Longrightarrow> llm_model self = VClient a \<Longrightarrow>
   render env (build_prompt env (additional_info self) up t) = Inr text \<Longrightarrow>
   llm_invoke env (h a) text = Inr response \<Longrightarrow> str_output_parser env response = Inl e \<Longrightarrow>
   execute env h self state =
     raise e (self\<lparr>simplefied_schema := Some t\<rparr>) state
       [LogInfo (''--- Executing '' @ node_name self @ '' Node ---''), TransformSchema d,
        NewPromptTemplate (build_prompt env (additional_info self) up t),
        LLMInvoke (h a) text]"
  by (simp add: execute_def getitem_def)

lemma execute_no_output_key:
  "state ''user_prompt'' = Some up \<Longrightarrow> schema (output_schema self) = Inr d \<Longrightarrow>
   transform_schema env d = Inr t \<Longrightarrow> llm_model self = VClient a \<Longrightarrow>
   render env (build_prompt env (additional_info self) up t) = Inr text \<Longrightarrow>
   llm_invoke env (h a) text = Inr response \<Longrightarrow>
   str_output_parser env response = Inr refined \<Longrightarrow> output_keys self = [] \<Longrightarrow>
   execute env h self state =
     raise IndexError (self\<lparr>simplefied_schema := Some t\<rparr>) state
       [LogInfo (''--- Executing '' @ node_name self @ '' Node ---''), TransformSchema d,
        NewPromptTemplate (build_prompt env (additional_info self) up t),
        LLMInvoke (h a) text]"
  by (simp add: execute_def getitem_def)

lemma execute_success:
  "state ''user_prompt'' = Some up \<Longrightarrow> schema (output_schema self) = Inr d \<Longrightarrow>
   transform_schema env d = Inr t \<Longrightarrow> llm_model self = VClient a \<Longrightarrow>
   render env (build_prompt env (additional_info self) up t) = Inr text \<Longrightarrow>
   llm_invoke env (h a) text = Inr response \<Longrightarrow>
   str_output_parser env response = Inr refined \<Longrightarrow> output_keys self = key # keys \<Longrightarrow>
   execute env h self state =
     \<lparr>returned = Inr (state(key \<mapsto> VStr refined)),
      state_after = state(key \<mapsto> VStr refined),
      node_after = self\<lparr>simplefied_schema := Some t\<rparr>,
      trace = [LogInfo (''--- Executing '' @ node_name self @ '' Node ---''), TransformSchema d,
        NewPromptTemplate (build_prompt env (additional_info self) up t),
        LLMInvoke (h a) text]\<rparr>"
  by (simp add: execute_def getitem_def Let_def)


lemma node_after_transformed:
  "state ''user_prompt'' = Some up \<Longrightarrow> schema (output_schema self) = Inr d \<Longrightarrow>
   transform_schema env d = Inr t \<Longrightarrow>
   node_after (execute env h self state) = self\<lparr>simplefied_schema := Some t\<rparr>"
  by (simp add: execute_def getitem_def raise_def Let_def
      split: pyval.split sum.split list.split)

lemma execute_ignores_simplefied_schema:
  "state ''user_prompt'' = Some up \<Longrightarrow> schema (output_schema self) = Inr d \<Longrightarrow>
   transform_schema env d = Inr t \<Longrightarrow>
   execute env h (self\<lparr>simplefied_schema := Some t\<rparr>) state = execute env h self state"
  by (simp add: execute_def getitem_def)

lemma schema_VModel: "schema (VModel d) = Inr d"
  by (simp add: schema_def)

lemma schema_VNone: "schema VNone = Inl AttributeError"
  by (simp add: schema_def)

lemma init_no_llm_model:
  "cfg ''llm_model'' = None \<Longrightarrow>
   ReasoningNode_init h inp outp (Some cfg) name = Inl (KeyError ''llm_model'')"
  by (simp add: ReasoningNode_init_def getitem_def)

lemma init_with_llm_model:
  "cfg ''llm_model'' = Some m \<Longrightarrow>
   ReasoningNode_init h inp outp (Some cfg) name =
     Inr (\<lparr>node_name = name, node_type = ''node'', input = inp, output_keys = outp,
           min_input_len = 2, node_config = Some cfg,
           llm_model = m,
           verbose = dict_get cfg ''verbose'' (VBool False),
           force = dict_get cfg ''force'' (VBool False),
           additional_info = dict_get cfg ''additional_info'' VNone,
           output_schema = dict_get cfg ''schema'' VNone,
           simplefied_schema = None\<rparr>,
          if isinstance_ChatOllama h m then set_format h m ''json'' else h)"
  by (simp add: ReasoningNode_init_def getitem_def BaseNode_init_def base_node.extend_def)

lemma init_fields:
  assumes "ReasoningNode_init h inp outp (Some cfg) name = Inr (self, h')"
  shows "additional_info self = dict_get cfg ''additional_info'' VNone"
    and "output_schema self = dict_get cfg ''schema'' VNone"
    and "cfg ''llm_model'' = Some (llm_model self)"
    and "output_keys self = outp"
    and "node_name self = name"
proof -
  obtain m where m: "cfg ''llm_model'' = Some m"
    using assms by (cases "cfg ''llm_model''") (simp_all add: init_no_llm_model)
  from assms show "additional_info self = dict_get cfg ''additional_info'' VNone"
    and "output_schema self = dict_get cfg ''schema'' VNone"
    and "cfg ''llm_model'' = Some (llm_model self)"
    and "output_keys self = outp"
    and "node_name self = name"
    by (auto simp: init_with_llm_model [of cfg m] m)
qed

lemma trace_until_prompt:
  assumes "state ''user_prompt'' = Some up" and "schema (output_schema self) = Inr d"
    and "transform_schema env d = Inr t"
  shows "transform_calls (trace (execute env h self state)) = [d]"
    and "prompts (trace (execute env h self state)) =
           [build_prompt env (additional_info self) up t]"
  using assms
  by (simp_all add: execute_def getitem_def raise_def Let_def
      split: pyval.split sum.split list.split)

lemma trace_with_client:
  assumes "state ''user_prompt'' = Some up" and "schema (output_schema self) = Inr d"
    and "transform_schema env d = Inr t" and "llm_model self = VClient a"
    and "render env (build_prompt env (additional_info self) up t) = Inr text"
  shows "trace (execute env h self state) =
           [LogInfo (''--- Executing '' @ node_name self @ '' Node ---''), TransformSchema d,
            NewPromptTemplate (build_prompt env (additional_info self) up t),
            LLMInvoke (h a) text]"
  using assms
  by (simp add: execute_def getitem_def raise_def Let_def split: sum.split list.split)

lemma failure_keeps_state:
  "returned (execute env h self state) = Inl e \<Longrightarrow> state_after (execute env h self state) = state"
  by (simp add: execute_def getitem_def raise_def Let_def
      split: pyval.splits sum.splits list.splits)

lemma stub_init:
  "ReasoningNode_init stub_store ''user_prompt'' [''reasoning'']
       (Some ((stub_config (VClient 1)))) default_node_name =
     Inr (stub_node (stub_config (VClient 1)) (VClient 1) VNone, stub_store)"
  by (simp add: init_with_llm_model [of _ "VClient 1"] stub_config_def stub_node_def
      default_node_name_def dict_get_def isinstance_ChatOllama_def stub_store_def)

lemma stub_init_info:
  "ReasoningNode_init stub_store ''user_prompt'' [''reasoning'']
       (Some ((stub_config (VClient 1))(''additional_info'' \<mapsto> info))) default_node_name =
     Inr (stub_node ((stub_config (VClient 1))(''additional_info'' \<mapsto> info)) (VClient 1) info, stub_store)"
  by (simp add: init_with_llm_model [of _ "VClient 1"] stub_config_def stub_node_def
      default_node_name_def dict_get_def isinstance_ChatOllama_def stub_store_def)

lemma stub_node_fields:
  "output_schema (stub_node cfg client info) = VModel stub_description"
  "llm_model (stub_node cfg client info) = client"
  "additional_info (stub_node cfg client info) = info"
  "output_keys (stub_node cfg client info) = [''reasoning'']"
  "node_name (stub_node cfg client info) = ''PromptRefiner''"
  by (simp_all add: stub_node_def)

lemma stub_state_user_prompt:
  "stub_state ''user_prompt'' = Some (VStr ''extract product names and prices'')"
  by (simp add: stub_state_def)

lemma stub_transform:
  "transform_schema (stub_env\<lparr>llm_invoke := f\<rparr>) stub_description = Inr stub_simplified"
  "transform_schema stub_env stub_description = Inr stub_simplified"
  by (simp_all add: stub_env_def)

lemma str_of_stub:
  "str_of (stub_env\<lparr>llm_invoke := f\<rparr>) stub_simplified = ''{name: string, price: number}''"
  "str_of stub_env stub_simplified = ''{name: string, price: number}''"
  "str_of (stub_env\<lparr>transform_schema := g\<rparr>) stub_simplified = ''{name: string, price: number}''"
  by (simp_all add: str_of_def stub_env_def stub_simplified_def)

lemma stub_render_base:
  "render stub_env
     (build_prompt stub_env VNone (VStr ''extract product names and prices'') stub_simplified) =
   Inr (TEMPLATE_REASONING_text1 @ ''extract product names and prices'' @
        TEMPLATE_REASONING_text2 @ ''{name: string, price: number}'' @
        TEMPLATE_REASONING_text3)"
  by (simp add: render_build_prompt not_callable str_of_stub str_of_VStr)

lemma llm_calls_use_client:
  assumes "llm_model self = VClient a"
    and "(c, ptext) \<in> set (llm_calls (trace (execute env h self state)))"
  shows "c = h a"
  using assms
  by (simp add: execute_def getitem_def raise_def Let_def
      split: sum.splits list.splits)

lemma execute_no_schema_configured:
  "state ''user_prompt'' = Some up \<Longrightarrow> output_schema self = VNone \<Longrightarrow>
   returned (execute env h self state) = Inl AttributeError
   \<and> transform_calls (trace (execute env h self state)) = []
   \<and> llm_calls (trace (execute env h self state)) = []"
  using execute_no_schema [where state = state and self = self and e = AttributeError
      and up = up and env = env and h = h]
  by (simp add: schema_VNone raise_def)

section \<open>The claims\<close>

text \<open>
  C1. One template per execution, chosen by the configuration alone. A node constructed from
  the configuration \<open>cfg\<close>, executed on any state that has \<^verbatim>\<open>user_prompt\<close> (with a schema
  class configured and a transform that returns), constructs exactly one prompt template:
  the base template when \<^verbatim>\<open>additional_info\<close> is absent from \<open>cfg\<close> or is \<^verbatim>\<open>None\<close>, the
  template with context for every other value, a non-empty string among them. The right-hand
  side does not mention the state. The two templates differ, and the field
  \<^verbatim>\<open>{additional_context}\<close> of the Additional Context section is in the second only.
\<close>

theorem template_selected_by_configuration:
  assumes "ReasoningNode_init h inp outp (Some cfg) name = Inr (self, h')"
    and "state ''user_prompt'' = Some up"
    and "cfg ''schema'' = Some (VModel d)"
    and "transform_schema env d = Inr t"
  shows "map template (prompts (trace (execute env h' self state))) =
           [if cfg ''additional_info'' = None \<or> cfg ''additional_info'' = Some VNone
            then TEMPLATE_REASONING else TEMPLATE_REASONING_WITH_CONTEXT]
         \<and> TEMPLATE_REASONING \<noteq> TEMPLATE_REASONING_WITH_CONTEXT
         \<and> Var ''additional_context'' \<in> set TEMPLATE_REASONING_WITH_CONTEXT
         \<and> Var ''additional_context'' \<notin> set TEMPLATE_REASONING"
proof -
  have info: "additional_info self = dict_get cfg ''additional_info'' VNone"
    and "output_schema self = dict_get cfg ''schema'' VNone"
    using assms(1) by (rule init_fields)+
  with assms(3) have sch: "schema (output_schema self) = Inr d"
    by (simp add: dict_get_def schema_VModel)
  have "prompts (trace (execute env h' self state)) =
          [build_prompt env (additional_info self) up t]"
    using assms(2) sch assms(4) by (rule trace_until_prompt)
  then have "map template (prompts (trace (execute env h' self state))) =
           [if cfg ''additional_info'' = None \<or> cfg ''additional_info'' = Some VNone
            then TEMPLATE_REASONING else TEMPLATE_REASONING_WITH_CONTEXT]"
    by (cases "cfg ''additional_info''") (simp_all add: info dict_get_def build_prompt_def)
  moreover have "TEMPLATE_REASONING \<noteq> TEMPLATE_REASONING_WITH_CONTEXT"
    by (simp add: TEMPLATE_REASONING_def TEMPLATE_REASONING_WITH_CONTEXT_def)
  moreover have "Var ''additional_context'' \<in> set TEMPLATE_REASONING_WITH_CONTEXT"
    by (simp add: TEMPLATE_REASONING_WITH_CONTEXT_def)
  moreover have "Var ''additional_context'' \<notin> set TEMPLATE_REASONING"
    by (simp add: TEMPLATE_REASONING_def)
  ultimately show ?thesis by simp
qed

theorem template_selected_by_configuration_witness:
  "ReasoningNode_init stub_store ''user_prompt'' [''reasoning'']
       (Some ((stub_config (VClient 1))(''additional_info'' \<mapsto> VStr ''prices in EUR'')))
       default_node_name =
     Inr (stub_node ((stub_config (VClient 1))(''additional_info'' \<mapsto> VStr ''prices in EUR''))
            (VClient 1) (VStr ''prices in EUR''), stub_store)
   \<and> stub_state ''user_prompt'' = Some (VStr ''extract product names and prices'')
   \<and> ((stub_config (VClient 1))(''additional_info'' \<mapsto> VStr ''prices in EUR'')) ''schema'' =
       Some (VModel stub_description)
   \<and> transform_schema stub_env stub_description = Inr stub_simplified
   \<and> map template (prompts (trace (execute stub_env stub_store
         (stub_node ((stub_config (VClient 1))(''additional_info'' \<mapsto> VStr ''prices in EUR''))
            (VClient 1) (VStr ''prices in EUR'')) stub_state))) =
       [TEMPLATE_REASONING_WITH_CONTEXT]
   \<and> ReasoningNode_init stub_store ''user_prompt'' [''reasoning'']
       (Some (stub_config (VClient 1))) default_node_name =
     Inr (stub_node (stub_config (VClient 1)) (VClient 1) VNone, stub_store)
   \<and> stub_config (VClient 1) ''schema'' = Some (VModel stub_description)
   \<and> map template (prompts (trace (execute stub_env stub_store
         (stub_node (stub_config (VClient 1)) (VClient 1) VNone) stub_state))) =
       [TEMPLATE_REASONING]"
proof -
  have st: "stub_state ''user_prompt'' = Some (VStr ''extract product names and prices'')"
    by (simp add: stub_state_def)
  have tr: "transform_schema stub_env stub_description = Inr stub_simplified"
    by (simp add: stub_env_def)
  have s1: "((stub_config (VClient 1))(''additional_info'' \<mapsto> VStr ''prices in EUR'')) ''schema'' =
       Some (VModel stub_description)"
    by (simp add: stub_config_def)
  have s2: "stub_config (VClient 1) ''schema'' = Some (VModel stub_description)"
    by (simp add: stub_config_def)
  have a2: "stub_config (VClient 1) ''additional_info'' = None"
    by (simp add: stub_config_def)
  note i1 = stub_init_info [of "VStr ''prices in EUR''"]
  note i2 = stub_init
  have c1: "map template (prompts (trace (execute stub_env stub_store
         (stub_node ((stub_config (VClient 1))(''additional_info'' \<mapsto> VStr ''prices in EUR''))
            (VClient 1) (VStr ''prices in EUR'')) stub_state))) =
       [TEMPLATE_REASONING_WITH_CONTEXT]"
    using template_selected_by_configuration
      [where cfg = "(stub_config (VClient 1))(''additional_info'' \<mapsto> VStr ''prices in EUR'')"
         and env = stub_env and state = stub_state and d = stub_description, OF i1 st s1 tr]
    by simp
  have c2: "map template (prompts (trace (execute stub_env stub_store
         (stub_node (stub_config (VClient 1)) (VClient 1) VNone) stub_state))) =
       [TEMPLATE_REASONING]"
    using template_selected_by_configuration
      [where cfg = "stub_config (VClient 1)"
         and env = stub_env and state = stub_state and d = stub_description, OF i2 st s2 tr] a2
    by simp
  show ?thesis using i1 i2 st s1 s2 tr c1 c2 by simp
qed

text \<open>
  C2. The frame of a successful execution. On a state that has \<^verbatim>\<open>user_prompt\<close>, with a
  schema class configured, a transform, a chat model and an output parser that return, and at
  least one output key, \<^verbatim>\<open>execute\<close> returns the state dict itself; in it the first output
  key holds the parsed text of the chat model, every other key holds what it held before,
  and the keys are those of the prior state and the output key.
\<close>

theorem execute_updates_only_output_key:
  assumes "state ''user_prompt'' = Some up"
    and "output_schema self = VModel d"
    and "transform_schema env d = Inr t"
    and "llm_model self = VClient a"
    and "render env (build_prompt env (additional_info self) up t) = Inr text"
    and "llm_invoke env (h a) text = Inr response"
    and "str_output_parser env response = Inr refined"
    and "output_keys self = key # keys"
  shows "returned (execute env h self state) = Inr (state_after (execute env h self state))
       \<and> state_after (execute env h self state) key = Some (VStr refined)
       \<and> (\<forall>k. k \<noteq> key \<longrightarrow> state_after (execute env h self state) k = state k)
       \<and> dom (state_after (execute env h self state)) = insert key (dom state)"
proof -
  from assms(2) have sch: "schema (output_schema self) = Inr d"
    by (simp add: schema_VModel)
  have "execute env h self state =
     \<lparr>returned = Inr (state(key \<mapsto> VStr refined)),
      state_after = state(key \<mapsto> VStr refined),
      node_after = self\<lparr>simplefied_schema := Some t\<rparr>,
      trace = [LogInfo (''--- Executing '' @ node_name self @ '' Node ---''), TransformSchema d,
        NewPromptTemplate (build_prompt env (additional_info self) up t),
        LLMInvoke (h a) text]\<rparr>"
    using assms(1) sch assms(3-8) by (rule execute_success)
  then show ?thesis by simp
qed

theorem execute_updates_only_output_key_witness:
  "stub_state ''user_prompt'' = Some (VStr ''extract product names and prices'')
   \<and> output_schema (stub_node (stub_config (VClient 1)) (VClient 1) VNone) = VModel stub_description
   \<and> transform_schema stub_env stub_description = Inr stub_simplified
   \<and> llm_model (stub_node (stub_config (VClient 1)) (VClient 1) VNone) = VClient 1
   \<and> render stub_env (build_prompt stub_env
         (additional_info (stub_node (stub_config (VClient 1)) (VClient 1) VNone))
         (VStr ''extract product names and prices'') stub_simplified) =
       Inr (TEMPLATE_REASONING_text1 @ ''extract product names and prices'' @
            TEMPLATE_REASONING_text2 @ ''{name: string, price: number}'' @
            TEMPLATE_REASONING_text3)
   \<and> llm_invoke stub_env (stub_store 1)
         (TEMPLATE_REASONING_text1 @ ''extract product names and prices'' @
          TEMPLATE_REASONING_text2 @ ''{name: string, price: number}'' @
          TEMPLATE_REASONING_text3) = Inr ''analysis''
   \<and> str_output_parser stub_env ''analysis'' = Inr ''analysis''
   \<and> output_keys (stub_node (stub_config (VClient 1)) (VClient 1) VNone) = [''reasoning'']
   \<and> returned (execute stub_env stub_store
         (stub_node (stub_config (VClient 1)) (VClient 1) VNone) stub_state) =
       Inr (state_after (execute stub_env stub_store
         (stub_node (stub_config (VClient 1)) (VClient 1) VNone) stub_state))
   \<and> state_after (execute stub_env stub_store
         (stub_node (stub_config (VClient 1)) (VClient 1) VNone) stub_state) ''reasoning'' =
       Some (VStr ''analysis'')
   \<and> state_after (execute stub_env stub_store
         (stub_node (stub_config (VClient 1)) (VClient 1) VNone) stub_state) ''user_prompt'' =
       Some (VStr ''extract product names and prices'')
   \<and> dom (state_after (execute stub_env stub_store
         (stub_node (stub_config (VClient 1)) (VClient 1) VNone) stub_state)) =
       {''reasoning'', ''user_prompt''}"
proof -
  let ?n = "stub_node (stub_config (VClient 1)) (VClient 1) VNone"
  let ?text = "TEMPLATE_REASONING_text1 @ ''extract product names and prices'' @
          TEMPLATE_REASONING_text2 @ ''{name: string, price: number}'' @
          TEMPLATE_REASONING_text3"
  have r: "render stub_env (build_prompt stub_env (additional_info ?n)
         (VStr ''extract product names and prices'') stub_simplified) = Inr ?text"
    by (simp add: stub_node_fields stub_render_base)
  have l: "llm_invoke stub_env (stub_store 1) ?text = Inr ''analysis''"
    by (simp add: stub_env_def)
  have p: "str_output_parser stub_env ''analysis'' = Inr ''analysis''"
    by (simp add: stub_env_def)
  have d: "dom stub_state = {''user_prompt''}"
    by (simp add: stub_state_def)
  have "''user_prompt'' \<noteq> ''reasoning''" by simp
  with execute_updates_only_output_key
    [where state = stub_state and self = ?n and env = stub_env and h = stub_store
       and key = "''reasoning''" and keys = "[]",
     OF stub_state_user_prompt stub_node_fields(1) stub_transform(2) stub_node_fields(2) r l p
       stub_node_fields(4)]
  show ?thesis
    using r l p d by (simp add: stub_node_fields stub_state_user_prompt stub_transform)
qed

text \<open>
  C3. A state without \<^verbatim>\<open>user_prompt\<close>: \<^verbatim>\<open>execute\<close> raises \<^verbatim>\<open>KeyError\<close> for that key, and
  neither \<^verbatim>\<open>transform_schema\<close> nor the chat model has been called; the state is unchanged.
\<close>

theorem missing_user_prompt_raises_KeyError:
  assumes "state ''user_prompt'' = None"
  shows "returned (execute env h self state) = Inl (KeyError ''user_prompt'')
       \<and> transform_calls (trace (execute env h self state)) = []
       \<and> llm_calls (trace (execute env h self state)) = []
       \<and> state_after (execute env h self state) = state"
  using assms by (simp add: execute_no_user_prompt raise_def)

theorem missing_user_prompt_raises_KeyError_witness:
  "Map.empty ''user_prompt'' = (None :: pyval option)
   \<and> returned (execute stub_env stub_store
        (stub_node (stub_config (VClient 1)) (VClient 1) VNone) Map.empty) =
       Inl (KeyError ''user_prompt'')
   \<and> transform_calls (trace (execute stub_env stub_store
        (stub_node (stub_config (VClient 1)) (VClient 1) VNone) Map.empty)) = []
   \<and> llm_calls (trace (execute stub_env stub_store
        (stub_node (stub_config (VClient 1)) (VClient 1) VNone) Map.empty)) = []"
  using missing_user_prompt_raises_KeyError
    [of Map.empty stub_env stub_store "stub_node (stub_config (VClient 1)) (VClient 1) VNone"]
  by simp

text \<open>
  C4 (as amended). Construction and the required entries. When the configuration mapping has
  no \<^verbatim>\<open>llm_model\<close>, construction raises \<^verbatim>\<open>KeyError\<close> for that key, whatever else the
  mapping holds. When it has \<^verbatim>\<open>llm_model\<close> and no \<^verbatim>\<open>schema\<close>, construction succeeds: the
  schema is read with \<^verbatim>\<open>.get\<close>, and the node is built with \<^verbatim>\<open>output_schema\<close> \<^verbatim>\<open>None\<close>.
\<close>

theorem construction_requires_llm_model_only:
  "(cfg ''llm_model'' = None \<longrightarrow>
      ReasoningNode_init h inp outp (Some cfg) name = Inl (KeyError ''llm_model''))
   \<and> (\<forall>m. cfg ''llm_model'' = Some m \<and> cfg ''schema'' = None \<longrightarrow>
        (\<exists>self h'. ReasoningNode_init h inp outp (Some cfg) name = Inr (self, h')
                   \<and> output_schema self = VNone))"
proof -
  have "\<exists>self h'. ReasoningNode_init h inp outp (Some cfg) name = Inr (self, h')
                   \<and> output_schema self = VNone"
    if "cfg ''llm_model'' = Some m" and "cfg ''schema'' = None" for m
    using that by (simp add: init_with_llm_model [of cfg m] dict_get_def)
  then show ?thesis by (simp add: init_no_llm_model)
qed

theorem construction_requires_llm_model_only_witness:
  "[''schema'' \<mapsto> VModel stub_description] ''llm_model'' = None
   \<and> ReasoningNode_init stub_store ''user_prompt'' [''reasoning'']
        (Some [''schema'' \<mapsto> VModel stub_description]) default_node_name =
       Inl (KeyError ''llm_model'')
   \<and> [''llm_model'' \<mapsto> VClient 1] ''llm_model'' = Some (VClient 1)
   \<and> [''llm_model'' \<mapsto> VClient 1] ''schema'' = None
   \<and> (\<exists>self h'. ReasoningNode_init stub_store ''user_prompt'' [''reasoning'']
          (Some [''llm_model'' \<mapsto> VClient 1]) default_node_name = Inr (self, h')
        \<and> output_schema self = VNone)"
proof -
  have a: "[''schema'' \<mapsto> VModel stub_description] ''llm_model'' = None"
    and b: "[''llm_model'' \<mapsto> VClient 1] ''llm_model'' = Some (VClient 1)"
    and c: "[''llm_model'' \<mapsto> VClient 1] ''schema'' = None"
    by simp_all
  from construction_requires_llm_model_only
    [where cfg = "[''schema'' \<mapsto> VModel stub_description]" and h = stub_store
       and inp = "''user_prompt''" and outp = "[''reasoning'']" and name = default_node_name] a
  have 1: "ReasoningNode_init stub_store ''user_prompt'' [''reasoning'']
        (Some [''schema'' \<mapsto> VModel stub_description]) default_node_name =
       Inl (KeyError ''llm_model'')"
    by blast
  from construction_requires_llm_model_only
    [where cfg = "[''llm_model'' \<mapsto> VClient 1]" and h = stub_store
       and inp = "''user_prompt''" and outp = "[''reasoning'']" and name = default_node_name] b c
  have 2: "\<exists>self h'. ReasoningNode_init stub_store ''user_prompt'' [''reasoning'']
          (Some [''llm_model'' \<mapsto> VClient 1]) default_node_name = Inr (self, h')
        \<and> output_schema self = VNone"
    by blast
  from a b c 1 2 show ?thesis by blast
qed

text \<open>
  C4 as stated fails: the configuration \<^verbatim>\<open>{"llm_model": client}\<close> has no \<^verbatim>\<open>schema\<close>, and the
  constructor returns a node.
\<close>

theorem construction_without_schema_succeeds:
  "[''llm_model'' \<mapsto> VClient 1] ''schema'' = None
   \<and> ReasoningNode_init stub_store ''user_prompt'' [''reasoning'']
       (Some [''llm_model'' \<mapsto> VClient 1]) default_node_name =
     Inr (\<lparr>node_name = ''PromptRefiner'', node_type = ''node'', input = ''user_prompt'',
           output_keys = [''reasoning''], min_input_len = 2,
           node_config = Some [''llm_model'' \<mapsto> VClient 1],
           llm_model = VClient 1, verbose = VBool False, force = VBool False,
           additional_info = VNone, output_schema = VNone, simplefied_schema = None\<rparr>,
          stub_store)"
  by (simp add: init_with_llm_model [of _ "VClient 1"] default_node_name_def dict_get_def
      isinstance_ChatOllama_def stub_store_def)

text \<open>
  C5. Errors of the collaborators. On a state that has \<^verbatim>\<open>user_prompt\<close> and with a schema
  class configured: when \<^verbatim>\<open>transform_schema\<close> raises \<open>e\<close>, \<^verbatim>\<open>execute\<close> raises the same \<open>e\<close>,
  the state dict is as it was and the chat model has not been called; when the chat model
  raises \<open>e\<close>, \<^verbatim>\<open>execute\<close> raises the same \<open>e\<close>, the state dict is as it was (the output key
  is not written), and the transform and the chat model have been called once each: no
  retry, no fallback.
\<close>

theorem collaborator_errors_propagate:
  assumes "state ''user_prompt'' = Some up"
    and "output_schema self = VModel d"
  shows "(transform_schema env d = Inl e \<longrightarrow>
            returned (execute env h self state) = Inl e
          \<and> state_after (execute env h self state) = state
          \<and> transform_calls (trace (execute env h self state)) = [d]
          \<and> llm_calls (trace (execute env h self state)) = [])
       \<and> (\<forall>t a text.
            transform_schema env d = Inr t \<and> llm_model self = VClient a
          \<and> render env (build_prompt env (additional_info self) up t) = Inr text
          \<and> llm_invoke env (h a) text = Inl e \<longrightarrow>
            returned (execute env h self state) = Inl e
          \<and> state_after (execute env h self state) = state
          \<and> transform_calls (trace (execute env h self state)) = [d]
          \<and> llm_calls (trace (execute env h self state)) = [(h a, text)])"
proof -
  from assms(2) have sch: "schema (output_schema self) = Inr d"
    by (simp add: schema_VModel)
  have first: "returned (execute env h self state) = Inl e
          \<and> state_after (execute env h self state) = state
          \<and> transform_calls (trace (execute env h self state)) = [d]
          \<and> llm_calls (trace (execute env h self state)) = []"
    if "transform_schema env d = Inl e"
    using execute_transform_error [where state = state, OF assms(1) sch that] by (simp add: raise_def)
  have second: "returned (execute env h self state) = Inl e
          \<and> state_after (execute env h self state) = state
          \<and> transform_calls (trace (execute env h self state)) = [d]
          \<and> llm_calls (trace (execute env h self state)) = [(h a, ptext)]"
    if "transform_schema env d = Inr t" and "llm_model self = VClient a"
      and "render env (build_prompt env (additional_info self) up t) = Inr ptext"
      and "llm_invoke env (h a) ptext = Inl e" for t a ptext
    using execute_llm_error [where state = state and h = h, OF assms(1) sch that] by (simp add: raise_def)
  from first second show ?thesis by blast
qed

theorem collaborator_errors_propagate_witness:
  "stub_state ''user_prompt'' = Some (VStr ''extract product names and prices'')
   \<and> output_schema (stub_node (stub_config (VClient 1)) (VClient 1) VNone) = VModel stub_description
   \<and> transform_schema (stub_env\<lparr>transform_schema := (\<lambda>d. Inl (Raised ''bad schema''))\<rparr>)
         stub_description = Inl (Raised ''bad schema'')
   \<and> returned (execute (stub_env\<lparr>transform_schema := (\<lambda>d. Inl (Raised ''bad schema''))\<rparr>)
         stub_store (stub_node (stub_config (VClient 1)) (VClient 1) VNone) stub_state) =
       Inl (Raised ''bad schema'')
   \<and> state_after (execute (stub_env\<lparr>transform_schema := (\<lambda>d. Inl (Raised ''bad schema''))\<rparr>)
         stub_store (stub_node (stub_config (VClient 1)) (VClient 1) VNone) stub_state) =
       stub_state
   \<and> llm_calls (trace (execute (stub_env\<lparr>transform_schema := (\<lambda>d. Inl (Raised ''bad schema''))\<rparr>)
         stub_store (stub_node (stub_config (VClient 1)) (VClient 1) VNone) stub_state)) = []
   \<and> transform_schema (stub_env\<lparr>llm_invoke := (\<lambda>c text. Inl (Raised ''timeout''))\<rparr>)
         stub_description = Inr stub_simplified
   \<and> llm_model (stub_node (stub_config (VClient 1)) (VClient 1) VNone) = VClient 1
   \<and> render (stub_env\<lparr>llm_invoke := (\<lambda>c text. Inl (Raised ''timeout''))\<rparr>)
        (build_prompt (stub_env\<lparr>llm_invoke := (\<lambda>c text. Inl (Raised ''timeout''))\<rparr>)
           (additional_info (stub_node (stub_config (VClient 1)) (VClient 1) VNone))
           (VStr ''extract product names and prices'') stub_simplified) =
       Inr (TEMPLATE_REASONING_text1 @ ''extract product names and prices'' @
            TEMPLATE_REASONING_text2 @ ''{name: string, price: number}'' @
            TEMPLATE_REASONING_text3)
   \<and> llm_invoke (stub_env\<lparr>llm_invoke := (\<lambda>c text. Inl (Raised ''timeout''))\<rparr>) (stub_store 1)
        (TEMPLATE_REASONING_text1 @ ''extract product names and prices'' @
         TEMPLATE_REASONING_text2 @ ''{name: string, price: number}'' @
         TEMPLATE_REASONING_text3) = Inl (Raised ''timeout'')
   \<and> returned (execute (stub_env\<lparr>llm_invoke := (\<lambda>c text. Inl (Raised ''timeout''))\<rparr>)
         stub_store (stub_node (stub_config (VClient 1)) (VClient 1) VNone) stub_state) =
       Inl (Raised ''timeout'')
   \<and> state_after (execute (stub_env\<lparr>llm_invoke := (\<lambda>c text. Inl (Raised ''timeout''))\<rparr>)
         stub_store (stub_node (stub_config (VClient 1)) (VClient 1) VNone) stub_state) =
       stub_state
   \<and> length (llm_calls (trace (execute (stub_env\<lparr>llm_invoke := (\<lambda>c text. Inl (Raised ''timeout''))\<rparr>)
         stub_store (stub_node (stub_config (VClient 1)) (VClient 1) VNone) stub_state))) = 1"
proof -
  let ?n = "stub_node (stub_config (VClient 1)) (VClient 1) VNone"
  let ?envT = "stub_env\<lparr>transform_schema := (\<lambda>d. Inl (Raised ''bad schema''))\<rparr>"
  let ?envL = "stub_env\<lparr>llm_invoke := (\<lambda>c text. Inl (Raised ''timeout''))\<rparr>"
  let ?text = "TEMPLATE_REASONING_text1 @ ''extract product names and prices'' @
          TEMPLATE_REASONING_text2 @ ''{name: string, price: number}'' @
          TEMPLATE_REASONING_text3"
  have t: "transform_schema ?envT stub_description = Inl (Raised ''bad schema'')"
    by simp
  have r: "render ?envL (build_prompt ?envL (additional_info ?n)
         (VStr ''extract product names and prices'') stub_simplified) = Inr ?text"
    by (simp add: stub_node_fields render_build_prompt not_callable str_of_stub str_of_VStr)
  have l: "llm_invoke ?envL (stub_store 1) ?text = Inl (Raised ''timeout'')"
    by simp
  note T = collaborator_errors_propagate
    [where state = stub_state and self = ?n and env = ?envT and h = stub_store
       and e = "Raised ''bad schema''", OF stub_state_user_prompt stub_node_fields(1)]
  note L = collaborator_errors_propagate
    [where state = stub_state and self = ?n and env = ?envL and h = stub_store
       and e = "Raised ''timeout''", OF stub_state_user_prompt stub_node_fields(1)]
  from T t have T': "returned (execute ?envT stub_store ?n stub_state) = Inl (Raised ''bad schema'')
     \<and> state_after (execute ?envT stub_store ?n stub_state) = stub_state
     \<and> llm_calls (trace (execute ?envT stub_store ?n stub_state)) = []"
    by blast
  from L stub_transform(1) stub_node_fields(2) r l
  have L': "returned (execute ?envL stub_store ?n stub_state) = Inl (Raised ''timeout'')
     \<and> state_after (execute ?envL stub_store ?n stub_state) = stub_state
     \<and> llm_calls (trace (execute ?envL stub_store ?n stub_state)) = [(stub_store 1, ?text)]"
    by blast
  show ?thesis
    using T' L' t r l
    by (simp add: stub_state_user_prompt stub_node_fields stub_transform)
qed

text \<open>
  C6. The schema text of the prompt. On a state that has \<^verbatim>\<open>user_prompt\<close>, with a schema class
  of description \<open>d\<close> configured and \<^verbatim>\<open>transform_schema(d)\<close> returning \<open>t\<close>: the transform is
  called once, with \<open>d\<close>; the variable \<^verbatim>\<open>json_schema\<close> of the one prompt template is the
  string \<^verbatim>\<open>str(t)\<close>; and when the user prompt and the additional context are strings (or
  other values that are not callable), the text the chat model receives has \<^verbatim>\<open>str(t)\<close> in
  the place of the field \<^verbatim>\<open>{json_schema}\<close>.
\<close>

theorem json_schema_is_str_of_transformed_schema:
  assumes "state ''user_prompt'' = Some up"
    and "output_schema self = VModel d"
    and "transform_schema env d = Inr t"
  shows "transform_calls (trace (execute env h self state)) = [d]
       \<and> map (\<lambda>p. map_of (partial_variables p) ''json_schema'')
            (prompts (trace (execute env h self state))) = [Some (VStr (str_of env t))]
       \<and> (\<forall>a. llm_model self = VClient a \<and> \<not> callable up
                \<and> \<not> callable (additional_info self) \<longrightarrow>
            map snd (llm_calls (trace (execute env h self state))) =
              [if additional_info self \<noteq> VNone
               then TEMPLATE_REASONING_WITH_CONTEXT_text1 @ str_of env up @
                    TEMPLATE_REASONING_WITH_CONTEXT_text2 @ str_of env t @
                    TEMPLATE_REASONING_WITH_CONTEXT_text3 @ str_of env (additional_info self) @
                    TEMPLATE_REASONING_WITH_CONTEXT_text4
               else TEMPLATE_REASONING_text1 @ str_of env up @
                    TEMPLATE_REASONING_text2 @ str_of env t @ TEMPLATE_REASONING_text3])"
proof -
  from assms(2) have sch: "schema (output_schema self) = Inr d"
    by (simp add: schema_VModel)
  note tp = trace_until_prompt [where state = state and h = h, OF assms(1) sch assms(3)]
  have js: "map_of (partial_variables (build_prompt env (additional_info self) up t))
      ''json_schema'' = Some (VStr (str_of env t))"
    by (simp add: build_prompt_def)
  have sent: "map snd (llm_calls (trace (execute env h self state))) =
              [if additional_info self \<noteq> VNone
               then TEMPLATE_REASONING_WITH_CONTEXT_text1 @ str_of env up @
                    TEMPLATE_REASONING_WITH_CONTEXT_text2 @ str_of env t @
                    TEMPLATE_REASONING_WITH_CONTEXT_text3 @ str_of env (additional_info self) @
                    TEMPLATE_REASONING_WITH_CONTEXT_text4
               else TEMPLATE_REASONING_text1 @ str_of env up @
                    TEMPLATE_REASONING_text2 @ str_of env t @ TEMPLATE_REASONING_text3]"
    if "llm_model self = VClient a" and "\<not> callable up"
      and "\<not> callable (additional_info self)" for a
    using trace_with_client [where state = state and h = h, OF assms(1) sch assms(3) that(1)
        render_build_prompt [OF that(2,3)]]
    by simp
  from tp js sent show ?thesis by simp
qed

theorem json_schema_is_str_of_transformed_schema_witness:
  "stub_state ''user_prompt'' = Some (VStr ''extract product names and prices'')
   \<and> output_schema (stub_node (stub_config (VClient 1)) (VClient 1) VNone) = VModel stub_description
   \<and> transform_schema stub_env stub_description = Inr stub_simplified
   \<and> transform_calls (trace (execute stub_env stub_store
        (stub_node (stub_config (VClient 1)) (VClient 1) VNone) stub_state)) = [stub_description]
   \<and> map (\<lambda>p. map_of (partial_variables p) ''json_schema'')
        (prompts (trace (execute stub_env stub_store
           (stub_node (stub_config (VClient 1)) (VClient 1) VNone) stub_state))) =
       [Some (VStr ''{name: string, price: number}'')]
   \<and> llm_model (stub_node (stub_config (VClient 1)) (VClient 1) VNone) = VClient 1
   \<and> \<not> callable (VStr ''extract product names and prices'')
   \<and> \<not> callable (additional_info (stub_node (stub_config (VClient 1)) (VClient 1) VNone))
   \<and> map snd (llm_calls (trace (execute stub_env stub_store
        (stub_node (stub_config (VClient 1)) (VClient 1) VNone) stub_state))) =
       [TEMPLATE_REASONING_text1 @ ''extract product names and prices'' @
        TEMPLATE_REASONING_text2 @ ''{name: string, price: number}'' @
        TEMPLATE_REASONING_text3]"
  using json_schema_is_str_of_transformed_schema
    [where state = stub_state and self = "stub_node (stub_config (VClient 1)) (VClient 1) VNone"
       and env = stub_env and h = stub_store,
     OF stub_state_user_prompt stub_node_fields(1) stub_transform(2)]
  by (simp add: stub_node_fields stub_state_user_prompt stub_transform str_of_stub str_of_VStr
      not_callable)

text \<open>
  C7. The format of a \<^verbatim>\<open>ChatOllama\<close> client. Construction from a configuration whose
  \<^verbatim>\<open>llm_model\<close> is the client object at \<open>a\<close> succeeds and leaves the store of client objects
  as it was but for that object: if its class is \<^verbatim>\<open>ChatOllama\<close> its \<^verbatim>\<open>format\<close> is now
  \<^verbatim>\<open>"json"\<close>, and if it is of another class nothing is changed. The store after construction
  is the one every execution of the node runs in, so each call of the chat model is made
  on the client as construction left it.
\<close>

theorem construction_sets_json_format_for_ChatOllama:
  assumes "cfg ''llm_model'' = Some (VClient a)"
  shows "\<exists>self h'. ReasoningNode_init h inp outp (Some cfg) name = Inr (self, h')
       \<and> llm_model self = VClient a
       \<and> h' = (if cls (h a) = ChatOllama then h(a := (h a)\<lparr>format := Some ''json''\<rparr>) else h)
       \<and> (\<forall>env state c ptext.
             (c, ptext) \<in> set (llm_calls (trace (execute (env :: 'r collaborators) h' self state)))
             \<longrightarrow> c = h' a)"
proof -
  let ?h' = "if cls (h a) = ChatOllama then h(a := (h a)\<lparr>format := Some ''json''\<rparr>) else h"
  obtain self where i: "ReasoningNode_init h inp outp (Some cfg) name = Inr (self, ?h')"
    and m: "llm_model self = VClient a"
    by (simp add: init_with_llm_model [of cfg "VClient a"] assms isinstance_ChatOllama_def
        set_format_def)
  have "c = ?h' a"
    if "(c, ptext) \<in> set (llm_calls (trace (execute (env :: 'r collaborators) ?h' self state)))"
    for env state c ptext
    using m that by (rule llm_calls_use_client)
  with i m show ?thesis by blast
qed

theorem construction_sets_json_format_for_ChatOllama_witness:
  "stub_config (VClient 0) ''llm_model'' = Some (VClient 0)
   \<and> cls (stub_store 0) = ChatOllama
   \<and> format (stub_store 0) = None
   \<and> (\<exists>self. ReasoningNode_init stub_store ''user_prompt'' [''reasoning'']
          (Some (stub_config (VClient 0))) default_node_name =
        Inr (self, stub_store(0 := \<lparr>cls = ChatOllama, format = Some ''json''\<rparr>)))
   \<and> stub_config (VClient 1) ''llm_model'' = Some (VClient 1)
   \<and> cls (stub_store 1) = ChatOpenAI
   \<and> (\<exists>self. ReasoningNode_init stub_store ''user_prompt'' [''reasoning'']
          (Some (stub_config (VClient 1))) default_node_name = Inr (self, stub_store))"
proof -
  have a: "stub_config (VClient 0) ''llm_model'' = Some (VClient 0)"
    and b: "stub_config (VClient 1) ''llm_model'' = Some (VClient 1)"
    by (simp_all add: stub_config_def)
  have s: "cls (stub_store 0) = ChatOllama" "format (stub_store 0) = None"
    "cls (stub_store 1) = ChatOpenAI"
    "(stub_store 0)\<lparr>format := Some ''json''\<rparr> = \<lparr>cls = ChatOllama, format = Some ''json''\<rparr>"
    by (simp_all add: stub_store_def)
  from construction_sets_json_format_for_ChatOllama
    [where cfg = "stub_config (VClient 0)" and a = 0 and h = stub_store
       and inp = "''user_prompt''" and outp = "[''reasoning'']" and name = default_node_name, OF a]
  have 1: "\<exists>self. ReasoningNode_init stub_store ''user_prompt'' [''reasoning'']
          (Some (stub_config (VClient 0))) default_node_name =
        Inr (self, stub_store(0 := \<lparr>cls = ChatOllama, format = Some ''json''\<rparr>))"
    using s by auto
  from construction_sets_json_format_for_ChatOllama
    [where cfg = "stub_config (VClient 1)" and a = 1 and h = stub_store
       and inp = "''user_prompt''" and outp = "[''reasoning'']" and name = default_node_name, OF b]
  have 2: "\<exists>self. ReasoningNode_init stub_store ''user_prompt'' [''reasoning'']
          (Some (stub_config (VClient 1))) default_node_name = Inr (self, stub_store)"
    using s by auto
  from a b s(1-3) 1 2 show ?thesis by blast
qed

text \<open>
  C8. One call of each collaborator. A node constructed with \<^verbatim>\<open>additional_info\<close> \<^verbatim>\<open>None\<close> (given
  so or left out), a schema class and a chat model, executed on a state whose
  \<^verbatim>\<open>user_prompt\<close> is a string (or another value that is not callable), with a transform that
  returns: \<^verbatim>\<open>transform_schema\<close> is called exactly once and the chat model exactly once,
  whatever the chat model answers.
\<close>

theorem collaborators_called_once:
  assumes "ReasoningNode_init h inp outp (Some cfg) name = Inr (self, h')"
    and "cfg ''additional_info'' = Some VNone \<or> cfg ''additional_info'' = None"
    and "cfg ''schema'' = Some (VModel d)"
    and "cfg ''llm_model'' = Some (VClient a)"
    and "state ''user_prompt'' = Some up"
    and "\<not> callable up"
    and "transform_schema env d = Inr t"
  shows "length (transform_calls (trace (execute env h' self state))) = 1
       \<and> length (llm_calls (trace (execute env h' self state))) = 1
       \<and> transform_calls (trace (execute env h' self state)) = [d]
       \<and> llm_calls (trace (execute env h' self state)) =
           [(h' a, TEMPLATE_REASONING_text1 @ str_of env up @
                   TEMPLATE_REASONING_text2 @ str_of env t @ TEMPLATE_REASONING_text3)]"
proof -
  note f = init_fields [OF assms(1)]
  from f(2) assms(3) have sch: "schema (output_schema self) = Inr d"
    by (simp add: dict_get_def schema_VModel)
  from f(3) assms(4) have cl: "llm_model self = VClient a"
    by simp
  from f(1) assms(2) have info: "additional_info self = VNone"
    by (auto simp: dict_get_def)
  have "render env (build_prompt env (additional_info self) up t) =
      Inr (TEMPLATE_REASONING_text1 @ str_of env up @
           TEMPLATE_REASONING_text2 @ str_of env t @ TEMPLATE_REASONING_text3)"
    using assms(6) by (simp add: render_build_prompt info not_callable)
  from trace_with_client [where state = state and h = h', OF assms(5) sch assms(7) cl this]
  show ?thesis by simp
qed

theorem collaborators_called_once_witness:
  "ReasoningNode_init stub_store ''user_prompt'' [''reasoning'']
       (Some ((stub_config (VClient 1))(''additional_info'' \<mapsto> VNone))) default_node_name =
     Inr (stub_node ((stub_config (VClient 1))(''additional_info'' \<mapsto> VNone)) (VClient 1) VNone,
          stub_store)
   \<and> ((stub_config (VClient 1))(''additional_info'' \<mapsto> VNone)) ''additional_info'' = Some VNone
   \<and> ((stub_config (VClient 1))(''additional_info'' \<mapsto> VNone)) ''schema'' =
       Some (VModel stub_description)
   \<and> ((stub_config (VClient 1))(''additional_info'' \<mapsto> VNone)) ''llm_model'' = Some (VClient 1)
   \<and> stub_state ''user_prompt'' = Some (VStr ''extract product names and prices'')
   \<and> \<not> callable (VStr ''extract product names and prices'')
   \<and> transform_schema stub_env stub_description = Inr stub_simplified
   \<and> length (transform_calls (trace (execute stub_env stub_store
        (stub_node ((stub_config (VClient 1))(''additional_info'' \<mapsto> VNone)) (VClient 1) VNone)
        stub_state))) = 1
   \<and> length (llm_calls (trace (execute stub_env stub_store
        (stub_node ((stub_config (VClient 1))(''additional_info'' \<mapsto> VNone)) (VClient 1) VNone)
        stub_state))) = 1"
proof -
  let ?cfg = "(stub_config (VClient 1))(''additional_info'' \<mapsto> VNone)"
  have c: "?cfg ''additional_info'' = Some VNone \<or> ?cfg ''additional_info'' = None"
    "?cfg ''schema'' = Some (VModel stub_description)"
    "?cfg ''llm_model'' = Some (VClient 1)"
    by (simp_all add: stub_config_def)
  have i: "?cfg ''additional_info'' = Some VNone"
    by simp
  have n: "\<not> callable (VStr ''extract product names and prices'')"
    by (rule not_callable)
  from collaborators_called_once
    [where cfg = ?cfg and state = stub_state and env = stub_env and h = stub_store
       and h' = stub_store,
     OF stub_init_info [of VNone] c stub_state_user_prompt n stub_transform(2)]
  have res: "length (transform_calls (trace (execute stub_env stub_store
        (stub_node ?cfg (VClient 1) VNone) stub_state))) = 1
   \<and> length (llm_calls (trace (execute stub_env stub_store
        (stub_node ?cfg (VClient 1) VNone) stub_state))) = 1"
    by blast
  show ?thesis
    using res i c(2,3) n stub_init_info [of VNone] stub_state_user_prompt stub_transform(2)
    by blast
qed

text \<open>
  C9. Repeating an execution. The collaborators being functions, \<^verbatim>\<open>execute\<close> called a second
  time on the node as the first call left it (with \<^verbatim>\<open>simplefied_schema\<close> set) and on the same
  state gives the same outcome as the first call: the same returned state or exception, the
  same output text in it, the same node and the same calls.
\<close>

theorem execute_repeatable:
  "execute env h (node_after (execute env h self state)) state = execute env h self state"
proof (cases "state ''user_prompt''")
  case None
  then show ?thesis by (simp add: execute_no_user_prompt raise_def)
next
  case (Some up)
  show ?thesis
  proof (cases "schema (output_schema self)")
    case (Inl e)
    with Some show ?thesis by (simp add: execute_no_schema raise_def)
  next
    case (Inr d)
    show ?thesis
    proof (cases "transform_schema env d")
      case (Inl e)
      with Some Inr show ?thesis by (simp add: execute_transform_error raise_def)
    next
      case t: (Inr t)
      from Some Inr t show ?thesis
        by (simp add: node_after_transformed execute_ignores_simplefied_schema)
    qed
  qed
qed

text \<open>
  C10. The empty string is a context. A node constructed with \<^verbatim>\<open>additional_info\<close> \<^verbatim>\<open>""\<close>
  builds the prompt from the template with context, with the empty string as
  \<^verbatim>\<open>additional_context\<close>; when the user prompt is a string (or another value that is not
  callable), the text sent to the chat model has the Additional Context section with
  nothing in the place of its field. The test is \<^verbatim>\<open>is not None\<close>.
\<close>

theorem empty_additional_info_selects_context_template:
  assumes "ReasoningNode_init h inp outp (Some cfg) name = Inr (self, h')"
    and "cfg ''additional_info'' = Some (VStr [])"
    and "cfg ''schema'' = Some (VModel d)"
    and "state ''user_prompt'' = Some up"
    and "transform_schema env d = Inr t"
  shows "prompts (trace (execute env h' self state)) =
           [\<lparr>template = TEMPLATE_REASONING_WITH_CONTEXT,
             partial_variables = [(''user_input'', up),
                                  (''json_schema'', VStr (str_of env t)),
                                  (''additional_context'', VStr [])]\<rparr>]
       \<and> (\<forall>a. cfg ''llm_model'' = Some (VClient a) \<and> \<not> callable up \<longrightarrow>
            map snd (llm_calls (trace (execute env h' self state))) =
              [TEMPLATE_REASONING_WITH_CONTEXT_text1 @ str_of env up @
               TEMPLATE_REASONING_WITH_CONTEXT_text2 @ str_of env t @
               TEMPLATE_REASONING_WITH_CONTEXT_text3 @ [] @
               TEMPLATE_REASONING_WITH_CONTEXT_text4])"
proof -
  note f = init_fields [OF assms(1)]
  from f(2) assms(3) have sch: "schema (output_schema self) = Inr d"
    by (simp add: dict_get_def schema_VModel)
  from f(1) assms(2) have info: "additional_info self = VStr []"
    by (simp add: dict_get_def)
  have p: "prompts (trace (execute env h' self state)) =
           [\<lparr>template = TEMPLATE_REASONING_WITH_CONTEXT,
             partial_variables = [(''user_input'', up),
                                  (''json_schema'', VStr (str_of env t)),
                                  (''additional_context'', VStr [])]\<rparr>]"
    using trace_until_prompt(2) [where state = state and h = h', OF assms(4) sch assms(5)]
    by (simp add: info build_prompt_def)
  have "map snd (llm_calls (trace (execute env h' self state))) =
              [TEMPLATE_REASONING_WITH_CONTEXT_text1 @ str_of env up @
               TEMPLATE_REASONING_WITH_CONTEXT_text2 @ str_of env t @
               TEMPLATE_REASONING_WITH_CONTEXT_text3 @ [] @
               TEMPLATE_REASONING_WITH_CONTEXT_text4]"
    if "cfg ''llm_model'' = Some (VClient a)" and "\<not> callable up" for a
  proof -
    from f(3) that(1) have cl: "llm_model self = VClient a" by simp
    have r: "render env (build_prompt env (additional_info self) up t) =
      Inr (TEMPLATE_REASONING_WITH_CONTEXT_text1 @ str_of env up @
               TEMPLATE_REASONING_WITH_CONTEXT_text2 @ str_of env t @
               TEMPLATE_REASONING_WITH_CONTEXT_text3 @ [] @
               TEMPLATE_REASONING_WITH_CONTEXT_text4)"
      using that(2) by (simp add: render_build_prompt info str_of_VStr not_callable)
    from trace_with_client [where state = state and h = h', OF assms(4) sch assms(5) cl r]
    show ?thesis by simp
  qed
  with p show ?thesis by blast
qed

theorem empty_additional_info_selects_context_template_witness:
  "ReasoningNode_init stub_store ''user_prompt'' [''reasoning'']
       (Some ((stub_config (VClient 1))(''additional_info'' \<mapsto> VStr []))) default_node_name =
     Inr (stub_node ((stub_config (VClient 1))(''additional_info'' \<mapsto> VStr [])) (VClient 1)
            (VStr []), stub_store)
   \<and> ((stub_config (VClient 1))(''additional_info'' \<mapsto> VStr [])) ''additional_info'' =
       Some (VStr [])
   \<and> ((stub_config (VClient 1))(''additional_info'' \<mapsto> VStr [])) ''schema'' =
       Some (VModel stub_description)
   \<and> stub_state ''user_prompt'' = Some (VStr ''extract product names and prices'')
   \<and> transform_schema stub_env stub_description = Inr stub_simplified
   \<and> map template (prompts (trace (execute stub_env stub_store
        (stub_node ((stub_config (VClient 1))(''additional_info'' \<mapsto> VStr [])) (VClient 1)
           (VStr [])) stub_state))) = [TEMPLATE_REASONING_WITH_CONTEXT]
   \<and> ((stub_config (VClient 1))(''additional_info'' \<mapsto> VStr [])) ''llm_model'' =
       Some (VClient 1)
   \<and> \<not> callable (VStr ''extract product names and prices'')
   \<and> map snd (llm_calls (trace (execute stub_env stub_store
        (stub_node ((stub_config (VClient 1))(''additional_info'' \<mapsto> VStr [])) (VClient 1)
           (VStr [])) stub_state))) =
       [TEMPLATE_REASONING_WITH_CONTEXT_text1 @ ''extract product names and prices'' @
        TEMPLATE_REASONING_WITH_CONTEXT_text2 @ ''{name: string, price: number}'' @
        TEMPLATE_REASONING_WITH_CONTEXT_text3 @ TEMPLATE_REASONING_WITH_CONTEXT_text4]"
proof -
  let ?cfg = "(stub_config (VClient 1))(''additional_info'' \<mapsto> VStr [])"
  let ?n = "stub_node ?cfg (VClient 1) (VStr [])"
  have c: "?cfg ''additional_info'' = Some (VStr [])"
    "?cfg ''schema'' = Some (VModel stub_description)"
    and m: "?cfg ''llm_model'' = Some (VClient 1)"
    by (simp_all add: stub_config_def)
  have n: "\<not> callable (VStr ''extract product names and prices'')"
    by (rule not_callable)
  note E = empty_additional_info_selects_context_template
    [where cfg = ?cfg and state = stub_state and env = stub_env and h = stub_store
       and h' = stub_store,
     OF stub_init_info [of "VStr []"] c stub_state_user_prompt stub_transform(2)]
  from E have 1: "map template (prompts (trace (execute stub_env stub_store ?n stub_state))) =
      [TEMPLATE_REASONING_WITH_CONTEXT]"
    by simp
  from E m n have 2: "map snd (llm_calls (trace (execute stub_env stub_store ?n stub_state))) =
       [TEMPLATE_REASONING_WITH_CONTEXT_text1 @ ''extract product names and prices'' @
        TEMPLATE_REASONING_WITH_CONTEXT_text2 @ ''{name: string, price: number}'' @
        TEMPLATE_REASONING_WITH_CONTEXT_text3 @ TEMPLATE_REASONING_WITH_CONTEXT_text4]"
    by (simp add: str_of_stub str_of_VStr)
  from 1 2 c m n stub_init_info [of "VStr []"] stub_state_user_prompt stub_transform(2)
  show ?thesis by blast
qed

end
